theory Spec2Isabelle
  imports Complex_Main "HOL-Library.Multiset"
begin

section \<open>The chain-rule visualisation: data model\<close>

text \<open>
  The embedding follows \<^verbatim>\<open>src/js/multivariable-chain-rule-standalone.js\<close>, class
  \<^verbatim>\<open>MultivariableChainRuleViz\<close>: its fields are a record, each method is a function of
  the instance state, and each call on the canvas context is a command in a list.

  A JavaScript number is modelled as a real number, so rounding, overflow and signed
  zeros are not represented. The two divisions of the modelled code whose divisor can be
  zero (the perspective division of \<^verbatim>\<open>project3D\<close> and the normalisation of the surface
  normal) yield a value of type \<open>num\<close>: \<open>Some r\<close> is the finite number \<open>r\<close>, and
  \<open>None\<close> stands for a value that is not a finite number (an infinity or NaN), or that
  depends on one, and is not tracked further. The \<^verbatim>\<open>click\<close> listener, which searches a
  grid of points by a floating-point loop, is not modelled.
\<close>

type_synonym num = "real option"

definition js_div :: "real \<Rightarrow> real \<Rightarrow> num" where
  "js_div a b = (if b = 0 then None else Some (a / b))"

definition num2 :: "(real \<Rightarrow> real \<Rightarrow> real) \<Rightarrow> num \<Rightarrow> num \<Rightarrow> num" where
  "num2 g a b = (case a of None \<Rightarrow> None | Some u \<Rightarrow> (case b of None \<Rightarrow> None | Some w \<Rightarrow> Some (g u w)))"

text \<open>An entry of the table \<^verbatim>\<open>this.functions\<close>: a surface with its two partial derivatives.\<close>

record surface =
  fn_f :: "real \<Rightarrow> real \<Rightarrow> real"
  fn_dfdx :: "real \<Rightarrow> real \<Rightarrow> real"
  fn_dfdy :: "real \<Rightarrow> real \<Rightarrow> real"
  fn_name :: string

definition paraboloid :: surface where
  "paraboloid = \<lparr> fn_f = (\<lambda>x y. x * x + y * y),
                  fn_dfdx = (\<lambda>x y. 2 * x),
                  fn_dfdy = (\<lambda>x y. 2 * y),
                  fn_name = ''z = x'' @ [CHR 0xB2] @ '' + y'' @ [CHR 0xB2] \<rparr>"

definition saddle :: surface where
  "saddle = \<lparr> fn_f = (\<lambda>x y. x * x - y * y),
              fn_dfdx = (\<lambda>x y. 2 * x),
              fn_dfdy = (\<lambda>x y. - 2 * y),
              fn_name = ''z = x'' @ [CHR 0xB2] @ '' - y'' @ [CHR 0xB2] \<rparr>"

definition waves :: surface where
  "waves = \<lparr> fn_f = (\<lambda>x y. sin x * cos y),
             fn_dfdx = (\<lambda>x y. cos x * cos y),
             fn_dfdy = (\<lambda>x y. - sin x * sin y),
             fn_name = ''z = sin(x)cos(y)'' \<rparr>"

definition hill :: surface where
  "hill = \<lparr> fn_f = (\<lambda>x y. 3 / (1 + x * x + y * y)),
            fn_dfdx = (\<lambda>x y. - 6 * x / (1 + x * x + y * y) ^ 2),
            fn_dfdy = (\<lambda>x y. - 6 * y / (1 + x * x + y * y) ^ 2),
            fn_name = ''z = 3/(1+x'' @ [CHR 0xB2] @ ''+y'' @ [CHR 0xB2] @ '')'' \<rparr>"

text \<open>
  What the property read \<^verbatim>\<open>this.functions[key]\<close> yields. The table is an object literal,
  so besides its four own properties the read finds the members that every object inherits
  from \<^verbatim>\<open>Object.prototype\<close>; those are functions or objects (truthy values) that have
  no \<^verbatim>\<open>f\<close>, \<^verbatim>\<open>dfdx\<close> or \<^verbatim>\<open>dfdy\<close>. \<open>None\<close> is \<^verbatim>\<open>undefined\<close>.
\<close>

datatype entry = Surface surface | Inherited

definition object_prototype_keys :: "string list" where
  "object_prototype_keys =
     [''constructor'', ''hasOwnProperty'', ''isPrototypeOf'', ''propertyIsEnumerable'',
      ''toLocaleString'', ''toString'', ''valueOf'', ''__proto__'',
      ''__defineGetter__'', ''__defineSetter__'', ''__lookupGetter__'', ''__lookupSetter__'']"

definition functions_lookup :: "string \<Rightarrow> entry option" where
  "functions_lookup key =
     (if key = ''paraboloid'' then Some (Surface paraboloid)
      else if key = ''saddle'' then Some (Surface saddle)
      else if key = ''waves'' then Some (Surface waves)
      else if key = ''hill'' then Some (Surface hill)
      else if key \<in> set object_prototype_keys then Some Inherited
      else None)"

text \<open>
  The instance state: the fields the constructor sets, and the size of the canvas the
  instance is bound to (\<^verbatim>\<open>this.canvas.width\<close>, \<^verbatim>\<open>this.canvas.height\<close>).
\<close>

record viz =
  canvasWidth :: real
  canvasHeight :: real
  cameraAngleX :: real
  cameraAngleY :: real
  cameraDistance :: real
  isDragging :: bool
  lastMouseX :: real
  lastMouseY :: real
  pointX :: real
  pointY :: real
  tParam :: real
  directionAngle :: real
  magnitude :: real
  showGrid :: bool
  showCurve :: bool
  showTangentPlane :: bool
  showVectors :: bool
  currentFunction :: string

definition constructor :: "real \<Rightarrow> real \<Rightarrow> viz" where
  "constructor w h =
     \<lparr> canvasWidth = w, canvasHeight = h,
       cameraAngleX = 0.3, cameraAngleY = 0.8, cameraDistance = 8,
       isDragging = False, lastMouseX = 0, lastMouseY = 0,
       pointX = 0, pointY = 0, tParam = pi / 4, directionAngle = pi / 2, magnitude = 1.0,
       showGrid = True, showCurve = True, showTangentPlane = True, showVectors = True,
       currentFunction = ''paraboloid'' \<rparr>"

section \<open>Parametric curve and projection\<close>

definition getCurvePoint :: "viz \<Rightarrow> real \<Rightarrow> real \<times> real" where
  "getCurvePoint v t =
     (let angle = directionAngle v;
          x = pointX v + magnitude v * cos angle * (t - tParam v);
          y = pointY v + magnitude v * sin angle * (t - tParam v)
      in (x, y))"

record curve_derivative =
  dx :: real
  dy :: real

definition getCurveDerivative :: "viz \<Rightarrow> curve_derivative" where
  "getCurveDerivative v =
     \<lparr> dx = magnitude v * cos (directionAngle v),
       dy = magnitude v * sin (directionAngle v) \<rparr>"

text \<open>The result of \<^verbatim>\<open>project3D\<close>: the object \<^verbatim>\<open>{x: screenX, y: screenY, depth: z2}\<close>.\<close>

record projected =
  screenX :: num
  screenY :: num
  depth :: real

definition project3D :: "viz \<Rightarrow> real \<Rightarrow> real \<Rightarrow> real \<Rightarrow> projected" where
  "project3D v x y z =
     (let cosY = cos (cameraAngleY v);
          sinY = sin (cameraAngleY v);
          x1 = x * cosY - z * sinY;
          z1 = x * sinY + z * cosY;
          y1 = y;
          cosX = cos (cameraAngleX v);
          sinX = sin (cameraAngleX v);
          y2 = y1 * cosX - z1 * sinX;
          z2 = y1 * sinX + z1 * cosX;
          x2 = x1;
          z2 = z2 + cameraDistance v;
          scale = js_div 600 z2;
          sx = map_option (\<lambda>s. canvasWidth v / 2 + x2 * s) scale;
          sy = map_option (\<lambda>s. canvasHeight v / 2 - y2 * s) scale
      in \<lparr> screenX = sx, screenY = sy, depth = z2 \<rparr>)"

subsection \<open>The projection as the specification words it\<close>

text \<open>
  The standard rotation of a pair by an angle, and the six steps of the specification's
  camera projection, composed from it.
\<close>

definition rotate2D :: "real \<Rightarrow> real \<times> real \<Rightarrow> real \<times> real" where
  "rotate2D a p = (fst p * cos a - snd p * sin a, fst p * sin a + snd p * cos a)"

definition spec_depth :: "viz \<Rightarrow> real \<Rightarrow> real \<Rightarrow> real \<Rightarrow> real" where
  "spec_depth v x y z =
     snd (rotate2D (cameraAngleX v) (y, snd (rotate2D (cameraAngleY v) (x, z)))) + cameraDistance v"

definition spec_project :: "viz \<Rightarrow> real \<Rightarrow> real \<Rightarrow> real \<Rightarrow> real \<times> real \<times> real" where
  "spec_project v x y z =
     (let yawed = rotate2D (cameraAngleY v) (x, z);
          pitched = rotate2D (cameraAngleX v) (y, snd yawed);
          d = snd pitched + cameraDistance v;
          scale = 600 / d
      in (canvasWidth v / 2 + fst yawed * scale, canvasHeight v / 2 - fst pitched * scale, d))"

section \<open>The drawing surface\<close>

text \<open>
  Every call on the 2D context \<^verbatim>\<open>this.ctx\<close> is a command; a drawing function returns the
  commands it issues, in order. A style is a CSS string, or the template
  \<^verbatim>\<open>rgba(r, g, b, ${alpha})\<close> with a computed alpha.
\<close>

datatype style = Css string | Rgba nat nat nat num

datatype cmd =
    ClearRect real real real real
  | StrokeStyle style
  | FillStyle style
  | LineWidth real
  | SetLineDash "real list"
  | BeginPath
  | MoveTo num num
  | LineTo num num
  | ClosePath
  | Arc num num real real real
  | Fill
  | Stroke

text \<open>
  Reading \<^verbatim>\<open>func.f\<close> where \<^verbatim>\<open>func\<close> is \<^verbatim>\<open>undefined\<close>, or calling it where
  \<^verbatim>\<open>func\<close> is an inherited member without such a property, throws a TypeError. A
  drawing function returns the commands issued until then and the error, if any.
\<close>

datatype js_error = TypeError

type_synonym outcome = "cmd list \<times> js_error option"

definition and_then :: "outcome \<Rightarrow> outcome \<Rightarrow> outcome" where
  "and_then a b = (case snd a of Some e \<Rightarrow> a | None \<Rightarrow> (fst a @ fst b, snd b))"

definition surface_of :: "viz \<Rightarrow> surface option" where
  "surface_of v =
     (case functions_lookup (currentFunction v) of
        Some (Surface func) \<Rightarrow> Some func
      | _ \<Rightarrow> None)"

definition drawLine3D ::
  "viz \<Rightarrow> real \<Rightarrow> real \<Rightarrow> real \<Rightarrow> real \<Rightarrow> real \<Rightarrow> real \<Rightarrow> string \<Rightarrow> real \<Rightarrow> cmd list" where
  "drawLine3D v x1 y1 z1 x2 y2 z2 color width =
     (let a = project3D v x1 y1 z1;
          b = project3D v x2 y2 z2
      in [StrokeStyle (Css color), LineWidth width, BeginPath,
          MoveTo (screenX a) (screenY a), LineTo (screenX b) (screenY b), Stroke])"

definition drawAxes :: "viz \<Rightarrow> cmd list" where
  "drawAxes v =
     (let axisLength = 3
      in drawLine3D v 0 0 0 axisLength 0 0 ''#e94560'' 2 @
         drawLine3D v 0 0 0 0 axisLength 0 ''#4ecca3'' 2 @
         drawLine3D v 0 0 0 0 0 axisLength ''#00d9ff'' 2)"

text \<open>
  The loop \<^verbatim>\<open>for (let y = -gridSize; y <= gridSize; y += step)\<close> with \<open>gridSize = 2\<close> and
  \<open>step = 0.5\<close>, started at \<open>y\<close>.
\<close>

function gridLoop :: "(real \<Rightarrow> cmd list) \<Rightarrow> real \<Rightarrow> cmd list" where
  "gridLoop body y = (if y \<le> 2 then body y @ gridLoop body (y + 0.5) else [])"
  by pat_completeness auto
termination
proof (relation "measure (\<lambda>(body, y). nat \<lceil>(2 - y) * 2 + 1\<rceil>)")
  show "wf (measure (\<lambda>(body :: real \<Rightarrow> cmd list, y :: real). nat \<lceil>(2 - y) * 2 + 1\<rceil>))"
    by simp
next
  fix body :: "real \<Rightarrow> cmd list" and y :: real
  assume le: "y \<le> 2"
  have e: "(2 - (y + 0.5)) * 2 + 1 = ((2 - y) * 2 + 1) - 1"
    by (simp add: algebra_simps)
  have c: "\<lceil>(2 - (y + 0.5)) * 2 + 1\<rceil> = \<lceil>(2 - y) * 2 + 1\<rceil> - 1"
    unfolding e by (rule ceiling_diff_one)
  have p: "0 < \<lceil>(2 - y) * 2 + 1\<rceil>"
    using le by simp
  from c p show "((body, y + 0.5), (body, y)) \<in> measure (\<lambda>(body, y). nat \<lceil>(2 - y) * 2 + 1\<rceil>)"
    by simp
qed

definition drawGrid :: "viz \<Rightarrow> cmd list" where
  "drawGrid v =
     (if \<not> showGrid v then []
      else
        (let gridSize = 2
         in [StrokeStyle (Css ''rgba(74, 85, 104, 0.3)''), LineWidth 1] @
            gridLoop (\<lambda>y.
              (let a = project3D v (- gridSize) y 0;
                   b = project3D v gridSize y 0
               in [BeginPath, MoveTo (screenX a) (screenY a),
                   LineTo (screenX b) (screenY b), Stroke])) (- gridSize) @
            gridLoop (\<lambda>x.
              (let a = project3D v x (- gridSize) 0;
                   b = project3D v x gridSize 0
               in [BeginPath, MoveTo (screenX a) (screenY a),
                   LineTo (screenX b) (screenY b), Stroke])) (- gridSize)))"

section \<open>The surface: mesh, painter's order, shading\<close>

record point3D =
  px :: real
  py :: real
  pz :: real

record triangle =
  p1 :: point3D
  p2 :: point3D
  p3 :: point3D

text \<open>A triangle after \<^verbatim>\<open>tri.depth = proj.depth\<close> has been assigned.\<close>

record dtriangle = triangle +
  tri_depth :: real

definition resolution :: nat where
  "resolution = 25"

definition range_c :: real where
  "range_c = 2"

definition step :: real where
  "step = (2 * range_c) / real resolution"

text \<open>The body of the two nested loops: the two triangles pushed for the grid square \<open>(i, j)\<close>.\<close>

definition cellTriangles :: "surface \<Rightarrow> nat \<Rightarrow> nat \<Rightarrow> triangle list" where
  "cellTriangles func i j =
     (let x1 = - range_c + real i * step;
          y1 = - range_c + real j * step;
          x2 = x1 + step;
          y2 = y1 + step;
          z1 = fn_f func x1 y1;
          z2 = fn_f func x2 y1;
          z3 = fn_f func x1 y2;
          z4 = fn_f func x2 y2
      in [\<lparr> p1 = \<lparr>px = x1, py = y1, pz = z1\<rparr>,
            p2 = \<lparr>px = x2, py = y1, pz = z2\<rparr>,
            p3 = \<lparr>px = x1, py = y2, pz = z3\<rparr> \<rparr>,
          \<lparr> p1 = \<lparr>px = x2, py = y1, pz = z2\<rparr>,
            p2 = \<lparr>px = x2, py = y2, pz = z4\<rparr>,
            p3 = \<lparr>px = x1, py = y2, pz = z3\<rparr> \<rparr>])"

definition meshTriangles :: "surface \<Rightarrow> triangle list" where
  "meshTriangles func =
     concat (map (\<lambda>i. concat (map (\<lambda>j. cellTriangles func i j) [0..<resolution]))
                 [0..<resolution])"

text \<open>The first \<^verbatim>\<open>forEach\<close>: the depth of the projected centroid is stored in the triangle.\<close>

definition centroidDepth :: "viz \<Rightarrow> 'a triangle_scheme \<Rightarrow> real" where
  "centroidDepth v tri =
     (let avgZ = (pz (p1 tri) + pz (p2 tri) + pz (p3 tri)) / 3;
          avgX = (px (p1 tri) + px (p2 tri) + px (p3 tri)) / 3;
          avgY = (py (p1 tri) + py (p2 tri) + py (p3 tri)) / 3;
          proj = project3D v avgX avgY avgZ
      in depth proj)"

definition assignDepth :: "viz \<Rightarrow> triangle \<Rightarrow> dtriangle" where
  "assignDepth v tri = triangle.extend tri (dtriangle.fields (centroidDepth v tri))"

text \<open>
  \<^verbatim>\<open>Array.prototype.sort\<close> with a comparator, on finite numbers: a stable sort that puts
  \<open>a\<close> before \<open>b\<close> when \<open>cmp a b\<close> is negative (insertion of each element, from the
  last to the first, before the first element it does not follow).
\<close>

fun js_insert :: "('a \<Rightarrow> 'a \<Rightarrow> real) \<Rightarrow> 'a \<Rightarrow> 'a list \<Rightarrow> 'a list" where
  "js_insert cmp a [] = [a]"
| "js_insert cmp a (b # bs) = (if cmp a b \<le> 0 then a # b # bs else b # js_insert cmp a bs)"

definition js_sort :: "('a \<Rightarrow> 'a \<Rightarrow> real) \<Rightarrow> 'a list \<Rightarrow> 'a list" where
  "js_sort cmp xs = foldr (js_insert cmp) xs []"

definition sortedTriangles :: "viz \<Rightarrow> surface \<Rightarrow> dtriangle list" where
  "sortedTriangles v func =
     js_sort (\<lambda>a b. tri_depth b - tri_depth a) (map (assignDepth v) (meshTriangles func))"

text \<open>The (non-normalised) normal of a triangle and its light intensity \<^verbatim>\<open>lightDot\<close>.\<close>

definition normal :: "'a triangle_scheme \<Rightarrow> real \<times> real \<times> real" where
  "normal tri =
     (let v1x = px (p2 tri) - px (p1 tri);
          v1y = py (p2 tri) - py (p1 tri);
          v1z = pz (p2 tri) - pz (p1 tri);
          v2x = px (p3 tri) - px (p1 tri);
          v2y = py (p3 tri) - py (p1 tri);
          v2z = pz (p3 tri) - pz (p1 tri);
          nx = v1y * v2z - v1z * v2y;
          ny = v1z * v2x - v1x * v2z;
          nz = v1x * v2y - v1y * v2x
      in (nx, ny, nz))"

definition lightDot :: "'a triangle_scheme \<Rightarrow> num" where
  "lightDot tri =
     (case normal tri of (nx, ny, nz) \<Rightarrow>
        map_option (\<lambda>q. max 0.2 (q * 0.5 + 0.5))
          (js_div (nx + ny + nz * 2) (sqrt (nx * nx + ny * ny + nz * nz))))"

text \<open>The body of the second \<^verbatim>\<open>forEach\<close>: one triangle is filled and stroked.\<close>

definition drawTriangle :: "viz \<Rightarrow> 'a triangle_scheme \<Rightarrow> cmd list" where
  "drawTriangle v tri =
     (let a = project3D v (px (p1 tri)) (py (p1 tri)) (pz (p1 tri));
          b = project3D v (px (p2 tri)) (py (p2 tri)) (pz (p2 tri));
          c = project3D v (px (p3 tri)) (py (p3 tri)) (pz (p3 tri))
      in [FillStyle (Rgba 78 204 163 (map_option (\<lambda>l. l * 0.6) (lightDot tri))),
          StrokeStyle (Css ''rgba(78, 204, 163, 0.3)''),
          LineWidth 0.5,
          BeginPath,
          MoveTo (screenX a) (screenY a),
          LineTo (screenX b) (screenY b),
          LineTo (screenX c) (screenY c),
          ClosePath, Fill, Stroke])"

definition drawSurfaceWith :: "viz \<Rightarrow> surface \<Rightarrow> cmd list" where
  "drawSurfaceWith v func = concat (map (drawTriangle v) (sortedTriangles v func))"

definition drawSurface :: "viz \<Rightarrow> outcome" where
  "drawSurface v =
     (case surface_of v of
        None \<Rightarrow> ([], Some TypeError)
      | Some func \<Rightarrow> (drawSurfaceWith v func, None))"

section \<open>Curve, tangent plane, vectors and point\<close>

definition drawCurve :: "viz \<Rightarrow> outcome" where
  "drawCurve v =
     (if \<not> showCurve v then ([], None)
      else
        (let tRange = 2;
             tStart = tParam v - tRange;
             tEnd = tParam v + tRange;
             steps = (100 :: nat);
             setup = [StrokeStyle (Css ''#ffe66d''), LineWidth 3, BeginPath]
         in case surface_of v of
              None \<Rightarrow> (setup, Some TypeError)
            | Some func \<Rightarrow>
                (setup @
                 map (\<lambda>i.
                   (let t = tStart + (tEnd - tStart) * real i / real steps;
                        pt = getCurvePoint v t;
                        z = fn_f func (fst pt) (snd pt);
                        proj = project3D v (fst pt) (snd pt) z
                    in if i = 0 then MoveTo (screenX proj) (screenY proj)
                       else LineTo (screenX proj) (screenY proj))) [0..<Suc steps] @
                 [Stroke], None)))"

definition drawTangentPlane :: "viz \<Rightarrow> outcome" where
  "drawTangentPlane v =
     (if \<not> showTangentPlane v then ([], None)
      else case surface_of v of
        None \<Rightarrow> ([], Some TypeError)
      | Some func \<Rightarrow>
          (let z0 = fn_f func (pointX v) (pointY v);
               dzdx = fn_dfdx func (pointX v) (pointY v);
               dzdy = fn_dfdy func (pointX v) (pointY v);
               half = 0.5;
               corners = [(pointX v - half, pointY v - half),
                          (pointX v + half, pointY v - half),
                          (pointX v + half, pointY v + half),
                          (pointX v - half, pointY v + half)];
               projCorners =
                 map (\<lambda>(cx, cy).
                   project3D v cx cy (z0 + dzdx * (cx - pointX v) + dzdy * (cy - pointY v)))
                   corners
           in ([FillStyle (Css ''rgba(255, 230, 109, 0.3)''),
                StrokeStyle (Css ''#ffe66d''),
                LineWidth 2,
                BeginPath,
                MoveTo (screenX (projCorners ! 0)) (screenY (projCorners ! 0))] @
               map (\<lambda>c. LineTo (screenX c) (screenY c)) (tl projCorners) @
               [ClosePath, Fill, Stroke], None)))"

text \<open>
  \<^verbatim>\<open>Math.atan2(y, x)\<close> on real numbers: the angle in \<open>(-\<pi>, \<pi>]\<close> of the point \<open>(x, y)\<close>,
  and \<open>0\<close> at the origin.
\<close>

definition atan2 :: "real \<Rightarrow> real \<Rightarrow> real" where
  "atan2 y x =
     (if 0 < x then arctan (y / x)
      else if x < 0 then (if 0 \<le> y then arctan (y / x) + pi else arctan (y / x) - pi)
      else if 0 < y then pi / 2
      else if y < 0 then - pi / 2
      else 0)"

text \<open>The second half of \<^verbatim>\<open>drawArrow3D\<close>: the two strokes of the head, from the projected end.\<close>

definition arrowHead :: "projected \<Rightarrow> projected \<Rightarrow> cmd list" where
  "arrowHead a b =
     (let angle = num2 atan2 (num2 (-) (screenY b) (screenY a)) (num2 (-) (screenX b) (screenX a));
          arrowLength = 10;
          arrowAngle = pi / 6
      in [BeginPath,
          MoveTo (screenX b) (screenY b),
          LineTo (num2 (\<lambda>q t. q - arrowLength * cos (t - arrowAngle)) (screenX b) angle)
                 (num2 (\<lambda>q t. q - arrowLength * sin (t - arrowAngle)) (screenY b) angle),
          MoveTo (screenX b) (screenY b),
          LineTo (num2 (\<lambda>q t. q - arrowLength * cos (t + arrowAngle)) (screenX b) angle)
                 (num2 (\<lambda>q t. q - arrowLength * sin (t + arrowAngle)) (screenY b) angle),
          Stroke])"

definition drawArrow3D ::
  "viz \<Rightarrow> real \<Rightarrow> real \<Rightarrow> real \<Rightarrow> real \<Rightarrow> real \<Rightarrow> real \<Rightarrow> string \<Rightarrow> real \<Rightarrow> cmd list" where
  "drawArrow3D v x1 y1 z1 x2 y2 z2 color width =
     (let a = project3D v x1 y1 z1;
          b = project3D v x2 y2 z2
      in [StrokeStyle (Css color), LineWidth width, BeginPath,
          MoveTo (screenX a) (screenY a), LineTo (screenX b) (screenY b), Stroke] @
         arrowHead a b)"

definition drawVectors :: "viz \<Rightarrow> outcome" where
  "drawVectors v =
     (if \<not> showVectors v then ([], None)
      else case surface_of v of
        None \<Rightarrow> ([], Some TypeError)
      | Some func \<Rightarrow>
          (let z0 = fn_f func (pointX v) (pointY v);
               dzdx = fn_dfdx func (pointX v) (pointY v);
               dzdy = fn_dfdy func (pointX v) (pointY v);
               deriv = getCurveDerivative v;
               dxdt = dx deriv;
               dydt = dy deriv;
               scale = 0.5;
               dzdt = dzdx * dxdt + dzdy * dydt;
               endX = pointX v + dxdt * 0.5;
               endY = pointY v + dydt * 0.5;
               endZ = z0 + dzdt * 0.5
           in (drawArrow3D v (pointX v) (pointY v) z0
                 (pointX v + scale) (pointY v) (z0 + dzdx * scale) ''#ff9d76'' 3 @
               drawArrow3D v (pointX v) (pointY v) z0
                 (pointX v) (pointY v + scale) (z0 + dzdy * scale) ''#ff9d76'' 3 @
               drawArrow3D v (pointX v) (pointY v) 0
                 (pointX v + dxdt * 0.5) (pointY v + dydt * 0.5) 0 ''#ffe66d'' 3 @
               drawArrow3D v (pointX v) (pointY v) z0 endX endY endZ ''#00d9ff'' 4, None)))"

definition drawPoint :: "viz \<Rightarrow> outcome" where
  "drawPoint v =
     (case surface_of v of
        None \<Rightarrow> ([], Some TypeError)
      | Some func \<Rightarrow>
          (let z = fn_f func (pointX v) (pointY v);
               proj = project3D v (pointX v) (pointY v) z;
               projBase = project3D v (pointX v) (pointY v) 0
           in ([StrokeStyle (Css ''rgba(233, 69, 96, 0.5)''),
                LineWidth 2,
                SetLineDash [5, 5],
                BeginPath,
                MoveTo (screenX projBase) (screenY projBase),
                LineTo (screenX proj) (screenY proj),
                Stroke,
                SetLineDash [],
                FillStyle (Css ''#e94560''),
                BeginPath,
                Arc (screenX proj) (screenY proj) 8 0 (2 * pi),
                Fill,
                StrokeStyle (Css ''#fff''),
                LineWidth 2,
                Stroke,
                FillStyle (Css ''rgba(233, 69, 96, 0.7)''),
                BeginPath,
                Arc (screenX projBase) (screenY projBase) 6 0 (2 * pi),
                Fill], None)))"

section \<open>Chain rule values\<close>

record chain_rule_values =
  cv_pointX :: real
  cv_pointY :: real
  cv_z :: real
  cv_dzdx :: real
  cv_dzdy :: real
  cv_dxdt :: real
  cv_dydt :: real
  cv_dzdt :: real

text \<open>
  A method is a function from the instance state to the state it leaves and its result;
  \<^verbatim>\<open>getChainRuleValues\<close> assigns no field.
\<close>

definition getChainRuleValues :: "viz \<Rightarrow> viz \<times> (js_error + chain_rule_values)" where
  "getChainRuleValues v =
     (case surface_of v of
        None \<Rightarrow> (v, Inl TypeError)
      | Some func \<Rightarrow>
          (let z = fn_f func (pointX v) (pointY v);
               dzdx = fn_dfdx func (pointX v) (pointY v);
               dzdy = fn_dfdy func (pointX v) (pointY v);
               deriv = getCurveDerivative v;
               dzdt = dzdx * dx deriv + dzdy * dy deriv
           in (v, Inr \<lparr> cv_pointX = pointX v, cv_pointY = pointY v, cv_z = z,
                        cv_dzdx = dzdx, cv_dzdy = dzdy,
                        cv_dxdt = dx deriv, cv_dydt = dy deriv, cv_dzdt = dzdt \<rparr>)))"

section \<open>Rendering, input handlers and public mutators\<close>

definition render :: "viz \<Rightarrow> outcome" where
  "render v =
     and_then ([ClearRect 0 0 (canvasWidth v) (canvasHeight v)], None)
    (and_then (drawGrid v, None)
    (and_then (drawAxes v, None)
    (and_then (drawSurface v)
    (and_then (drawTangentPlane v)
    (and_then (drawCurve v)
    (and_then (drawVectors v)
              (drawPoint v)))))))"

text \<open>
  The listeners that \<^verbatim>\<open>setupEventListeners\<close> registers for \<^verbatim>\<open>mousedown\<close>,
  \<^verbatim>\<open>mousemove\<close>, \<^verbatim>\<open>mouseup\<close> and \<^verbatim>\<open>wheel\<close>, as functions of the state and the event's
  \<^verbatim>\<open>clientX\<close>, \<^verbatim>\<open>clientY\<close> or \<^verbatim>\<open>deltaY\<close>. Each returns the state it leaves and what it drew.
\<close>

definition onMouseDown :: "viz \<Rightarrow> real \<Rightarrow> real \<Rightarrow> viz \<times> outcome" where
  "onMouseDown v clientX clientY =
     (v\<lparr>isDragging := True, lastMouseX := clientX, lastMouseY := clientY\<rparr>, ([], None))"

definition onMouseMove :: "viz \<Rightarrow> real \<Rightarrow> real \<Rightarrow> viz \<times> outcome" where
  "onMouseMove v clientX clientY =
     (if isDragging v then
        (let dx = clientX - lastMouseX v;
             dy = clientY - lastMouseY v;
             v1 = v\<lparr>cameraAngleY := cameraAngleY v + dx * 0.01\<rparr>;
             v2 = v1\<lparr>cameraAngleX := cameraAngleX v1 + dy * 0.01\<rparr>;
             v3 = v2\<lparr>cameraAngleX := max (- pi / 2) (min (pi / 2) (cameraAngleX v2))\<rparr>;
             v4 = v3\<lparr>lastMouseX := clientX, lastMouseY := clientY\<rparr>
         in (v4, render v4))
      else (v, ([], None)))"

definition onMouseUp :: "viz \<Rightarrow> viz \<times> outcome" where
  "onMouseUp v = (v\<lparr>isDragging := False\<rparr>, ([], None))"

definition onWheel :: "viz \<Rightarrow> real \<Rightarrow> viz \<times> outcome" where
  "onWheel v deltaY =
     (let v1 = v\<lparr>cameraDistance := cameraDistance v + deltaY * 0.01\<rparr>;
          v2 = v1\<lparr>cameraDistance := max 3 (min 15 (cameraDistance v1))\<rparr>
      in (v2, render v2))"

datatype event = MouseDown real real | MouseMove real real | MouseUp | Wheel real

fun dispatch :: "viz \<Rightarrow> event \<Rightarrow> viz \<times> outcome" where
  "dispatch v (MouseDown clientX clientY) = onMouseDown v clientX clientY"
| "dispatch v (MouseMove clientX clientY) = onMouseMove v clientX clientY"
| "dispatch v MouseUp = onMouseUp v"
| "dispatch v (Wheel deltaY) = onWheel v deltaY"

text \<open>The state after a sequence of events, delivered one after the other.\<close>

definition after_events :: "viz \<Rightarrow> event list \<Rightarrow> viz" where
  "after_events v es = foldl (\<lambda>s e. fst (dispatch s e)) v es"

definition setFunction :: "viz \<Rightarrow> string \<Rightarrow> viz \<times> outcome" where
  "setFunction v funcName =
     (case functions_lookup funcName of
        None \<Rightarrow> (v, ([], None))
      | Some _ \<Rightarrow> (let v1 = v\<lparr>currentFunction := funcName\<rparr> in (v1, render v1)))"

definition setPoint :: "viz \<Rightarrow> real \<Rightarrow> real \<Rightarrow> viz \<times> outcome" where
  "setPoint v x y = (let v1 = v\<lparr>pointX := x, pointY := y\<rparr> in (v1, render v1))"

text \<open>\<^verbatim>\<open>setDirection(angle, mag = 1.0)\<close>: an omitted second argument is \<open>None\<close>.\<close>

definition setDirection :: "viz \<Rightarrow> real \<Rightarrow> real option \<Rightarrow> viz \<times> outcome" where
  "setDirection v angle mag =
     (let m = (case mag of None \<Rightarrow> 1.0 | Some given \<Rightarrow> given);
          v1 = v\<lparr>directionAngle := angle, magnitude := m\<rparr>
      in (v1, render v1))"

definition toggleGrid :: "viz \<Rightarrow> viz \<times> outcome" where
  "toggleGrid v = (let v1 = v\<lparr>showGrid := \<not> showGrid v\<rparr> in (v1, render v1))"

definition toggleCurve :: "viz \<Rightarrow> viz \<times> outcome" where
  "toggleCurve v = (let v1 = v\<lparr>showCurve := \<not> showCurve v\<rparr> in (v1, render v1))"

definition toggleTangentPlane :: "viz \<Rightarrow> viz \<times> outcome" where
  "toggleTangentPlane v =
     (let v1 = v\<lparr>showTangentPlane := \<not> showTangentPlane v\<rparr> in (v1, render v1))"

definition toggleVectors :: "viz \<Rightarrow> viz \<times> outcome" where
  "toggleVectors v = (let v1 = v\<lparr>showVectors := \<not> showVectors v\<rparr> in (v1, render v1))"

section \<open>Notions used to state the properties\<close>

text \<open>The clamp invariant of the camera: pitch within a quarter turn, distance in its band.\<close>

definition camera_ok :: "viz \<Rightarrow> bool" where
  "camera_ok v \<longleftrightarrow>
     - pi / 2 \<le> cameraAngleX v \<and> cameraAngleX v \<le> pi / 2 \<and>
     3 \<le> cameraDistance v \<and> cameraDistance v \<le> 15"

text \<open>The length of a plane vector and the angle between two plane vectors.\<close>

definition vec_len :: "real \<times> real \<Rightarrow> real" where
  "vec_len u = sqrt ((fst u)\<^sup>2 + (snd u)\<^sup>2)"

definition angle_between :: "real \<times> real \<Rightarrow> real \<times> real \<Rightarrow> real" where
  "angle_between u w = arccos ((fst u * fst w + snd u * snd w) / (vec_len u * vec_len w))"

text \<open>
  Inputs of the specification's scenarios: the flat plane \<open>f(x, y) = 0\<close> (not an entry of
  the table), a horizontal triangle and a triangle collapsed to a point.
\<close>

definition flat_plane :: surface where
  "flat_plane = \<lparr> fn_f = (\<lambda>x y. 0), fn_dfdx = (\<lambda>x y. 0), fn_dfdy = (\<lambda>x y. 0),
                  fn_name = ''z = 0'' \<rparr>"

definition horizontal_triangle :: triangle where
  "horizontal_triangle =
     \<lparr> p1 = \<lparr>px = 0, py = 0, pz = 0\<rparr>,
       p2 = \<lparr>px = 1, py = 0, pz = 0\<rparr>,
       p3 = \<lparr>px = 0, py = 1, pz = 0\<rparr> \<rparr>"

definition point_triangle :: triangle where
  "point_triangle =
     \<lparr> p1 = \<lparr>px = 0, py = 0, pz = 0\<rparr>,
       p2 = \<lparr>px = 0, py = 0, pz = 0\<rparr>,
       p3 = \<lparr>px = 0, py = 0, pz = 0\<rparr> \<rparr>"

text \<open>The grid vertex \<open>(i, j)\<close> of the mesh over \<open>[-2, 2] \<times> [-2, 2]\<close>, lifted onto the surface.\<close>

definition grid_vertex :: "surface \<Rightarrow> nat \<Rightarrow> nat \<Rightarrow> point3D" where
  "grid_vertex func i j =
     \<lparr> px = - 2 + 4 * real i / 25, py = - 2 + 4 * real j / 25,
       pz = fn_f func (- 2 + 4 * real i / 25) (- 2 + 4 * real j / 25) \<rparr>"

definition on_surface :: "surface \<Rightarrow> point3D \<Rightarrow> bool" where
  "on_surface func p \<longleftrightarrow>
     pz p = fn_f func (px p) (py p) \<and> - 2 \<le> px p \<and> px p \<le> 2 \<and> - 2 \<le> py p \<and> py p \<le> 2"

text \<open>A state with the point at \<open>(1, 1)\<close> on the paraboloid, moving along \<open>x\<close> at speed 2.\<close>

definition sample_state :: viz where
  "sample_state = (constructor 900 700)\<lparr>pointX := 1, pointY := 1, directionAngle := 0, magnitude := 2\<rparr>"

text \<open>The keys of the four entries of the table.\<close>

definition known_keys :: "string list" where
  "known_keys = [''paraboloid'', ''saddle'', ''waves'', ''hill'']"

text \<open>A triangle whose normal \<open>(2, 2, 4)\<close> points along the light direction \<open>(1, 1, 2)\<close>.\<close>

definition tilted_triangle :: triangle where
  "tilted_triangle =
     \<lparr> p1 = \<lparr>px = 0, py = 0, pz = 0\<rparr>,
       p2 = \<lparr>px = 2, py = 0, pz = - 1\<rparr>,
       p3 = \<lparr>px = 0, py = 2, pz = - 1\<rparr> \<rparr>"





section \<open>Auxiliary facts\<close>

subsection \<open>Camera clamps\<close>

lemma constructor_camera_ok: "camera_ok (constructor w h)"
proof -
  have "(2::real) \<le> pi" by (rule pi_ge_two)
  then show ?thesis by (simp add: camera_ok_def constructor_def)
qed

lemma dispatch_camera_ok: "camera_ok v \<Longrightarrow> camera_ok (fst (dispatch v e))"
proof (cases e)
  case (MouseDown a b)
  assume "camera_ok v"
  then show ?thesis using MouseDown by (simp add: camera_ok_def onMouseDown_def)
next
  case (MouseMove a b)
  assume "camera_ok v"
  moreover have "(0::real) < pi" by simp
  ultimately show ?thesis using MouseMove
    by (simp add: camera_ok_def onMouseMove_def Let_def max_def min_def)
next
  case MouseUp
  assume "camera_ok v"
  then show ?thesis using MouseUp by (simp add: camera_ok_def onMouseUp_def)
next
  case (Wheel d)
  assume "camera_ok v"
  then show ?thesis using Wheel by (simp add: camera_ok_def onWheel_def Let_def)
qed

lemma after_events_camera_ok: "camera_ok v \<Longrightarrow> camera_ok (after_events v es)"
  unfolding after_events_def
  by (induction es arbitrary: v) (simp_all add: dispatch_camera_ok)

subsection \<open>Shading\<close>

lemma light_cauchy_schwarz: "(a + b + c * 2)\<^sup>2 \<le> 6 * (a * a + b * b + c * c)" for a b c :: real
proof -
  have "6 * (a * a + b * b + c * c) - (a + b + c * 2)\<^sup>2 = (a - b)\<^sup>2 + (2 * a - c)\<^sup>2 + (2 * b - c)\<^sup>2"
    by (simp add: power2_eq_square algebra_simps)
  moreover have "0 \<le> (a - b)\<^sup>2 + (2 * a - c)\<^sup>2 + (2 * b - c)\<^sup>2" by simp
  ultimately show ?thesis by linarith
qed

lemma sumsq_pos:
  fixes a b c :: real
  assumes "(a, b, c) \<noteq> (0, 0, 0)"
  shows "0 < a * a + b * b + c * c"
proof -
  have "0 \<le> a * a" "0 \<le> b * b" "0 \<le> c * c" by simp_all
  moreover have "a * a \<noteq> 0 \<or> b * b \<noteq> 0 \<or> c * c \<noteq> 0" using assms by auto
  ultimately show ?thesis by linarith
qed

lemma light_quotient_le:
  fixes a b c :: real
  assumes pos: "0 < a * a + b * b + c * c"
  shows "(a + b + c * 2) / sqrt (a * a + b * b + c * c) \<le> sqrt 6"
proof -
  let ?s = "a * a + b * b + c * c"
  have "a + b + c * 2 \<le> \<bar>a + b + c * 2\<bar>" by simp
  also have "\<dots> = sqrt ((a + b + c * 2)\<^sup>2)" by simp
  also have "\<dots> \<le> sqrt (6 * ?s)" using light_cauchy_schwarz [of a b c] by (simp only: real_sqrt_le_iff)
  also have "\<dots> = sqrt 6 * sqrt ?s" by (rule real_sqrt_mult)
  finally have "a + b + c * 2 \<le> sqrt 6 * sqrt ?s" .
  moreover have "0 < sqrt ?s" using pos by simp
  ultimately show ?thesis by (simp add: pos_divide_le_eq)
qed

lemma floor_bound:
  fixes q s :: real
  assumes "q \<le> s" and "0 \<le> s"
  shows "max 0.2 (q * 0.5 + 0.5) \<le> 0.5 + 0.5 * s"
proof (cases "0.2 \<le> q * 0.5 + 0.5")
  case True
  then have "max 0.2 (q * 0.5 + 0.5) = q * 0.5 + 0.5" by (simp only: max_def if_True)
  also have "\<dots> \<le> 0.5 + 0.5 * s" using assms by linarith
  finally show ?thesis .
next
  case False
  then have "max 0.2 (q * 0.5 + 0.5) = 0.2" by (simp only: max_def if_False)
  also have "\<dots> \<le> 0.5 + 0.5 * s" using assms by linarith
  finally show ?thesis .
qed

lemma lightDot_degenerate: "normal tri = (0, 0, 0) \<Longrightarrow> lightDot tri = None"
  by (simp add: lightDot_def js_div_def)

lemma lightDot_regular:
  assumes "normal tri \<noteq> (0, 0, 0)"
  shows "\<exists>l. lightDot tri = Some l \<and> 0.2 \<le> l \<and> l \<le> 0.5 + 0.5 * sqrt 6"
proof -
  obtain a b c where n: "normal tri = (a, b, c)" by (cases "normal tri") auto
  with assms have pos: "0 < a * a + b * b + c * c" by (simp add: sumsq_pos)
  let ?q = "(a + b + c * 2) / sqrt (a * a + b * b + c * c)"
  have q: "?q \<le> sqrt 6" by (rule light_quotient_le [OF pos])
  have s: "sqrt (a * a + b * b + c * c) \<noteq> 0" using pos by simp
  have l: "lightDot tri = Some (max 0.2 (?q * 0.5 + 0.5))"
    using n s by (simp add: lightDot_def js_div_def)
  have "(0::real) \<le> sqrt 6" by simp
  with q have "max 0.2 (?q * 0.5 + 0.5) \<le> 0.5 + 0.5 * sqrt 6"
    by (rule floor_bound)
  moreover have "0.2 \<le> max 0.2 (?q * 0.5 + 0.5)" by simp
  ultimately show ?thesis using l by blast
qed

lemma normal_horizontal: "normal horizontal_triangle = (0, 0, 1)"
  by (simp add: normal_def horizontal_triangle_def)

lemma lightDot_horizontal: "lightDot horizontal_triangle = Some (3 / 2)"
  by (simp add: lightDot_def normal_horizontal js_div_def)

lemma normal_point: "normal point_triangle = (0, 0, 0)"
  by (simp add: normal_def point_triangle_def)

lemma lightDot_point: "lightDot point_triangle = None"
  by (simp add: lightDot_degenerate normal_point)

subsection \<open>The mesh\<close>

lemma length_concat_uniform:
  "(\<And>x. x \<in> set xs \<Longrightarrow> length (g x) = k) \<Longrightarrow> length (concat (map g xs)) = k * length xs"
  by (induction xs) simp_all

lemma nth_concat_uniform:
  "(\<And>x. x \<in> set xs \<Longrightarrow> length (g x) = k) \<Longrightarrow> i < length xs \<Longrightarrow> r < k \<Longrightarrow>
   concat (map g xs) ! (i * k + r) = g (xs ! i) ! r"
proof (induction xs arbitrary: i)
  case Nil
  then show ?case by simp
next
  case (Cons x xs)
  show ?case
  proof (cases i)
    case 0
    then show ?thesis using Cons.prems by (simp add: nth_append)
  next
    case (Suc m)
    have "concat (map g (x # xs)) ! (i * k + r) = concat (map g xs) ! (m * k + r)"
      using Suc Cons.prems(1) [of x] by (simp add: nth_append)
    also have "\<dots> = g (xs ! m) ! r"
      using Cons.IH [of m] Cons.prems Suc by simp
    finally show ?thesis using Suc by simp
  qed
qed

lemma length_cellTriangles: "length (cellTriangles func i j) = 2"
  by (simp add: cellTriangles_def Let_def)

lemma length_meshRow:
  "length (concat (map (\<lambda>j. cellTriangles func i j) [0..<resolution])) = 2 * resolution"
  using length_concat_uniform [of "[0..<resolution]" "\<lambda>j. cellTriangles func i j" 2]
  by (simp add: length_cellTriangles)

lemma length_meshTriangles: "length (meshTriangles func) = 1250"
  unfolding meshTriangles_def
  using length_concat_uniform [of "[0..<resolution]"
      "\<lambda>i. concat (map (\<lambda>j. cellTriangles func i j) [0..<resolution])" "2 * resolution"]
  by (simp add: length_meshRow) (simp add: resolution_def)

lemma step_val: "step = 4 / 25"
  by (simp add: step_def range_c_def resolution_def)

lemma cellTriangles_grid:
  "cellTriangles func i j =
     [\<lparr> p1 = grid_vertex func i j, p2 = grid_vertex func (Suc i) j, p3 = grid_vertex func i (Suc j) \<rparr>,
      \<lparr> p1 = grid_vertex func (Suc i) j, p2 = grid_vertex func (Suc i) (Suc j),
        p3 = grid_vertex func i (Suc j) \<rparr>]"
proof -
  have a: "- range_c + real k * step = - 2 + 4 * real k / 25" for k :: nat
    by (simp add: step_val range_c_def)
  have b: "- 2 + 4 * real k / 25 + step = - 2 + 4 * real (Suc k) / 25" for k :: nat
    by (simp add: step_val field_simps)
  show ?thesis
    unfolding cellTriangles_def Let_def grid_vertex_def a b by (rule refl)
qed

lemma meshTriangles_nth:
  assumes "i < 25" and "j < 25" and "r < 2"
  shows "meshTriangles func ! (2 * (25 * i + j) + r) = cellTriangles func i j ! r"
proof -
  have i: "i < length [0..<resolution]" and j: "j < length [0..<resolution]"
    using assms by (simp_all add: resolution_def)
  have r: "j * 2 + r < 2 * resolution" using assms by (simp add: resolution_def)
  have "meshTriangles func ! (i * (2 * resolution) + (j * 2 + r)) =
        concat (map (\<lambda>j. cellTriangles func ([0..<resolution] ! i) j) [0..<resolution]) ! (j * 2 + r)"
    unfolding meshTriangles_def
    by (rule nth_concat_uniform [OF length_meshRow i r])
  also have "\<dots> = cellTriangles func ([0..<resolution] ! i) ([0..<resolution] ! j) ! r"
    by (rule nth_concat_uniform [OF length_cellTriangles j assms(3)])
  also have "\<dots> = cellTriangles func i j ! r"
    using assms by (simp add: resolution_def)
  finally show ?thesis by (simp add: resolution_def algebra_simps)
qed

lemma in_concat_upt: "t \<in> set (concat (map g [0..<n])) \<longleftrightarrow> (\<exists>i<n. t \<in> set (g i))"
proof
  assume "t \<in> set (concat (map g [0..<n]))"
  then obtain i where "i \<in> set [0..<n]" and "t \<in> set (g i)" by auto
  then show "\<exists>i<n. t \<in> set (g i)" by auto
next
  assume "\<exists>i<n. t \<in> set (g i)"
  then obtain i where "i < n" and "t \<in> set (g i)" by blast
  then have "i \<in> set [0..<n]" by simp
  with \<open>t \<in> set (g i)\<close> show "t \<in> set (concat (map g [0..<n]))" by auto
qed

lemma in_meshTriangles:
  "t \<in> set (meshTriangles func) \<longleftrightarrow> (\<exists>i<25. \<exists>j<25. t \<in> set (cellTriangles func i j))"
  unfolding meshTriangles_def resolution_def by (simp only: in_concat_upt)

lemma grid_vertex_on_surface:
  "i \<le> 25 \<Longrightarrow> j \<le> 25 \<Longrightarrow> on_surface func (grid_vertex func i j)"
  by (simp add: on_surface_def grid_vertex_def)

lemma mesh_vertices_on_surface:
  assumes "t \<in> set (meshTriangles func)"
  shows "on_surface func (p1 t) \<and> on_surface func (p2 t) \<and> on_surface func (p3 t)"
proof -
  from assms obtain i j where i: "i < 25" and j: "j < 25" and t: "t \<in> set (cellTriangles func i j)"
    unfolding in_meshTriangles by blast
  have "Suc i \<le> 25" "Suc j \<le> 25" "i \<le> 25" "j \<le> 25" using i j by simp_all
  then have "on_surface func (grid_vertex func i j)" "on_surface func (grid_vertex func (Suc i) j)"
    "on_surface func (grid_vertex func i (Suc j))" "on_surface func (grid_vertex func (Suc i) (Suc j))"
    by (simp_all only: grid_vertex_on_surface)
  then show ?thesis using t unfolding cellTriangles_grid by auto
qed

lemma mesh_cell_nth:
  assumes "i < 25" and "j < 25"
  shows "meshTriangles func ! (2 * (25 * i + j)) =
           \<lparr> p1 = grid_vertex func i j, p2 = grid_vertex func (Suc i) j,
             p3 = grid_vertex func i (Suc j) \<rparr> \<and>
         meshTriangles func ! (2 * (25 * i + j) + 1) =
           \<lparr> p1 = grid_vertex func (Suc i) j, p2 = grid_vertex func (Suc i) (Suc j),
             p3 = grid_vertex func i (Suc j) \<rparr>"
  using meshTriangles_nth [OF assms, of 0 func] meshTriangles_nth [OF assms, of 1 func]
  by (simp add: cellTriangles_grid)

lemma flat_cell_normal:
  assumes "fn_f func = (\<lambda>x y. 0)" and "t \<in> set (cellTriangles func i j)"
  shows "normal t = (0, 0, 16 / 625)"
  using assms unfolding cellTriangles_grid
  by (auto simp: normal_def grid_vertex_def field_simps)

lemma lightDot_upward:
  assumes "normal t = (0, 0, c)" and "0 < c"
  shows "lightDot t = Some (3 / 2)"
proof -
  have "sqrt (c * c) = c" using assms(2) by simp
  then show ?thesis using assms by (simp add: lightDot_def js_div_def)
qed

lemma flat_mesh_shading:
  assumes "fn_f func = (\<lambda>x y. 0)" and "t \<in> set (meshTriangles func)"
  shows "normal t = (0, 0, 16 / 625) \<and> lightDot t = Some (3 / 2)"
proof -
  from assms(2) obtain i j where "t \<in> set (cellTriangles func i j)"
    unfolding in_meshTriangles by blast
  then have n: "normal t = (0, 0, 16 / 625)" by (rule flat_cell_normal [OF assms(1)])
  moreover have "lightDot t = Some (3 / 2)" by (rule lightDot_upward [OF n]) simp
  ultimately show ?thesis by simp
qed

lemma mesh_first_mem: "meshTriangles func ! 0 \<in> set (meshTriangles func)"
  by (rule nth_mem) (simp add: length_meshTriangles)

subsection \<open>Sorting by depth\<close>















subsection \<open>The painter's order and the commands drawn\<close>














subsection \<open>Rendering and table lookup\<close>

lemma render_starts:
  "\<exists>rest. fst (render s) = ClearRect 0 0 (canvasWidth s) (canvasHeight s) # rest"
  by (simp add: render_def and_then_def split: option.split)

lemma render_nonempty: "fst (render s) \<noteq> []"
  using render_starts [of s] by auto

lemma surface_of_inherited:
  "functions_lookup (currentFunction v) = Some Inherited \<Longrightarrow> surface_of v = None"
  by (simp add: surface_of_def)

lemma render_without_surface:
  "surface_of v = None \<Longrightarrow>
   render v = ([ClearRect 0 0 (canvasWidth v) (canvasHeight v)] @ drawGrid v @ drawAxes v,
               Some TypeError)"
  by (simp add: render_def and_then_def drawSurface_def)

lemma lookup_toString: "functions_lookup ''toString'' = Some Inherited"
  by (simp add: functions_lookup_def object_prototype_keys_def)

lemma setFunction_unknown:
  "functions_lookup key = None \<Longrightarrow> setFunction v key = (v, ([], None))"
  by (simp add: setFunction_def)

lemma surface_of_sample: "surface_of sample_state = Some paraboloid"
  by (simp add: surface_of_def sample_state_def constructor_def functions_lookup_def)

lemma setFunction_known:
  "key \<in> set known_keys \<Longrightarrow>
   setFunction v key = (v\<lparr>currentFunction := key\<rparr>, render (v\<lparr>currentFunction := key\<rparr>))"
  by (auto simp: known_keys_def setFunction_def functions_lookup_def Let_def)

subsection \<open>Arrowheads\<close>

lemma atan2_direction:
  assumes "(x, y) \<noteq> (0, 0)"
  shows "x = vec_len (x, y) * cos (atan2 y x) \<and> y = vec_len (x, y) * sin (atan2 y x)"
proof -
  let ?L = "sqrt (x\<^sup>2 + y\<^sup>2)"
  have L: "vec_len (x, y) = ?L" by (simp add: vec_len_def)
  consider (pos) "0 < x" | (neg) "x < 0" | (up) "x = 0" "0 < y" | (down) "x = 0" "y < 0"
    using assms by fastforce
  then show ?thesis
  proof cases
    case pos
    have r: "sqrt (1 + (y / x)\<^sup>2) = ?L / x"
    proof -
      have "1 + (y / x)\<^sup>2 = (x\<^sup>2 + y\<^sup>2) / x\<^sup>2" using pos by (simp add: field_simps power2_eq_square)
      then have "sqrt (1 + (y / x)\<^sup>2) = ?L / sqrt (x\<^sup>2)" by (simp add: real_sqrt_divide)
      then show ?thesis using pos by simp
    qed
    have "?L \<noteq> 0" using pos by simp
    then show ?thesis using pos unfolding L
      by (simp add: atan2_def cos_arctan sin_arctan r)
  next
    case neg
    have r: "sqrt (1 + (y / x)\<^sup>2) = ?L / (- x)"
    proof -
      have "1 + (y / x)\<^sup>2 = (x\<^sup>2 + y\<^sup>2) / x\<^sup>2" using neg by (simp add: field_simps power2_eq_square)
      then have "sqrt (1 + (y / x)\<^sup>2) = ?L / sqrt (x\<^sup>2)" by (simp add: real_sqrt_divide)
      then show ?thesis using neg by simp
    qed
    have "?L \<noteq> 0" using neg by simp
    then show ?thesis using neg unfolding L
      by (simp add: atan2_def cos_arctan sin_arctan r)
  next
    case up
    then show ?thesis unfolding L by (simp add: atan2_def)
  next
    case down
    then show ?thesis unfolding L by (simp add: atan2_def)
  qed
qed


lemma vec_len_polar: "vec_len (c * cos t, c * sin t) = \<bar>c\<bar>"
proof -
  have "(c * cos t)\<^sup>2 + (c * sin t)\<^sup>2 = c\<^sup>2 * ((cos t)\<^sup>2 + (sin t)\<^sup>2)"
    by (simp only: power_mult_distrib distrib_left)
  also have "\<dots> = c\<^sup>2" by simp
  finally show ?thesis by (simp add: vec_len_def)
qed

lemma stroke_angle:
  assumes L: "0 < L" and "0 \<le> d" and "d \<le> pi"
  shows "angle_between (10 * cos (t - d), 10 * sin (t - d)) (L * cos t, L * sin t) = d"
    and "angle_between (10 * cos (t + d), 10 * sin (t + d)) (L * cos t, L * sin t) = d"
proof -
  have l1: "vec_len (10 * cos (t - d), 10 * sin (t - d)) = 10"
    and l2: "vec_len (10 * cos (t + d), 10 * sin (t + d)) = 10"
    and l3: "vec_len (L * cos t, L * sin t) = L"
    using L by (simp_all add: vec_len_polar)
  have "cos (t - (t - d)) = cos t * cos (t - d) + sin t * sin (t - d)" by (rule cos_diff)
  then have c1: "cos (t - d) * cos t + sin (t - d) * sin t = cos d" by (simp add: mult.commute)
  have "cos (t - (t + d)) = cos t * cos (t + d) + sin t * sin (t + d)" by (rule cos_diff)
  then have c2: "cos (t + d) * cos t + sin (t + d) * sin t = cos d" by (simp add: mult.commute)
  have "10 * cos (t - d) * (L * cos t) + 10 * sin (t - d) * (L * sin t) =
        (10 * L) * (cos (t - d) * cos t + sin (t - d) * sin t)" by (simp add: algebra_simps)
  then have d1: "10 * cos (t - d) * (L * cos t) + 10 * sin (t - d) * (L * sin t) = (10 * L) * cos d"
    by (simp only: c1)
  have "10 * cos (t + d) * (L * cos t) + 10 * sin (t + d) * (L * sin t) =
        (10 * L) * (cos (t + d) * cos t + sin (t + d) * sin t)" by (simp add: algebra_simps)
  then have d2: "10 * cos (t + d) * (L * cos t) + 10 * sin (t + d) * (L * sin t) = (10 * L) * cos d"
    by (simp only: c2)
  have q: "(10 * L) * cos d / (10 * L) = cos d" using L by simp
  show "angle_between (10 * cos (t - d), 10 * sin (t - d)) (L * cos t, L * sin t) = d"
    unfolding angle_between_def fst_conv snd_conv l1 l3 d1 q using assms by (simp add: arccos_cos)
  show "angle_between (10 * cos (t + d), 10 * sin (t + d)) (L * cos t, L * sin t) = d"
    unfolding angle_between_def fst_conv snd_conv l2 l3 d2 q using assms by (simp add: arccos_cos)
qed

lemma arrowHead_geometry:
  assumes a: "screenX a = Some ax" "screenY a = Some ay"
      and b: "screenX b = Some bx" "screenY b = Some by"
      and ne: "(ax, ay) \<noteq> (bx, by)"
  shows "\<exists>t1x t1y t2x t2y.
           arrowHead a b =
             [BeginPath, MoveTo (Some bx) (Some by), LineTo (Some t1x) (Some t1y),
              MoveTo (Some bx) (Some by), LineTo (Some t2x) (Some t2y), Stroke] \<and>
           vec_len (t1x - bx, t1y - by) = 10 \<and>
           vec_len (t2x - bx, t2y - by) = 10 \<and>
           angle_between (bx - t1x, by - t1y) (bx - ax, by - ay) = pi / 6 \<and>
           angle_between (bx - t2x, by - t2y) (bx - ax, by - ay) = pi / 6"
proof -
  let ?t = "atan2 (by - ay) (bx - ax)"
  let ?L = "vec_len (bx - ax, by - ay)"
  have "(bx - ax, by - ay) \<noteq> (0, 0)" using ne by auto
  then have dir: "bx - ax = ?L * cos ?t" "by - ay = ?L * sin ?t"
    using atan2_direction [of "bx - ax" "by - ay"] by simp_all
  have "?L \<noteq> 0" using \<open>(bx - ax, by - ay) \<noteq> (0, 0)\<close> by (auto simp: vec_len_def)
  moreover have "0 \<le> ?L" by (simp add: vec_len_def)
  ultimately have L: "0 < ?L" by simp
  have p: "(0::real) \<le> pi / 6" "pi / 6 \<le> pi" by simp_all
  let ?t1x = "bx - 10 * cos (?t - pi / 6)" and ?t1y = "by - 10 * sin (?t - pi / 6)"
  let ?t2x = "bx - 10 * cos (?t + pi / 6)" and ?t2y = "by - 10 * sin (?t + pi / 6)"
  have h: "arrowHead a b =
             [BeginPath, MoveTo (Some bx) (Some by), LineTo (Some ?t1x) (Some ?t1y),
              MoveTo (Some bx) (Some by), LineTo (Some ?t2x) (Some ?t2y), Stroke]"
    by (simp add: arrowHead_def num2_def a b Let_def)
  have l1: "vec_len (?t1x - bx, ?t1y - by) = 10"
    using vec_len_polar [of "- 10" "?t - pi / 6"] by simp
  have l2: "vec_len (?t2x - bx, ?t2y - by) = 10"
    using vec_len_polar [of "- 10" "?t + pi / 6"] by simp
  have "angle_between (10 * cos (?t - pi / 6), 10 * sin (?t - pi / 6)) (?L * cos ?t, ?L * sin ?t) = pi / 6"
    by (rule stroke_angle(1) [OF L p])
  then have a1: "angle_between (bx - ?t1x, by - ?t1y) (bx - ax, by - ay) = pi / 6"
    using dir by simp
  have "angle_between (10 * cos (?t + pi / 6), 10 * sin (?t + pi / 6)) (?L * cos ?t, ?L * sin ?t) = pi / 6"
    by (rule stroke_angle(2) [OF L p])
  then have a2: "angle_between (bx - ?t2x, by - ?t2y) (bx - ax, by - ay) = pi / 6"
    using dir by simp
  from h l1 l2 a1 a2 show ?thesis by blast
qed


lemma default_depth_pos: "0 < sin (0.8 :: real) * cos (0.3 :: real) + 8"
proof -
  have "\<bar>sin (0.8 :: real) * cos (0.3 :: real)\<bar> \<le> 1 * 1"
    unfolding abs_mult by (rule mult_mono) simp_all
  then show ?thesis by linarith
qed

lemma default_cos_pos: "0 < cos (0.8 :: real)"
proof (rule cos_gt_zero_pi)
  have "(2::real) \<le> pi" by (rule pi_ge_two)
  then show "- (pi / 2) < (0.8 :: real)" and "(0.8 :: real) < pi / 2" by simp_all
qed

lemma default_arrow_endpoints:
  "\<exists>bx by.
     screenX (project3D (constructor w h) 0 0 0) = Some (w / 2) \<and>
     screenY (project3D (constructor w h) 0 0 0) = Some (h / 2) \<and>
     screenX (project3D (constructor w h) 1 0 0) = Some bx \<and>
     screenY (project3D (constructor w h) 1 0 0) = Some by \<and>
     (w / 2, h / 2) \<noteq> (bx, by)"
proof -
  let ?d = "sin (0.8 :: real) * cos (0.3 :: real) + 8"
  have d: "0 < ?d" by (rule default_depth_pos)
  then have dn: "?d \<noteq> 0" by simp
  have o: "screenX (project3D (constructor w h) 0 0 0) = Some (w / 2)"
    "screenY (project3D (constructor w h) 0 0 0) = Some (h / 2)"
    by (simp_all add: project3D_def constructor_def js_div_def Let_def)
  have z: "depth (project3D (constructor w h) 1 0 0) = ?d"
    by (simp add: project3D_def constructor_def Let_def)
  have x: "screenX (project3D (constructor w h) 1 0 0) = Some (w / 2 + cos 0.8 * (600 / ?d))"
    using dn by (simp add: project3D_def constructor_def js_div_def Let_def)
  have y: "screenY (project3D (constructor w h) 1 0 0) =
             Some (h / 2 - (- (sin 0.8 * sin 0.3)) * (600 / ?d))"
    using dn by (simp add: project3D_def constructor_def js_div_def Let_def)
  have "0 < cos (0.8 :: real) * (600 / ?d)"
    by (rule mult_pos_pos [OF default_cos_pos]) (rule divide_pos_pos [OF _ d], simp)
  then have "w / 2 \<noteq> w / 2 + cos 0.8 * (600 / ?d)" by linarith
  with o x y show ?thesis by blast
qed

subsection \<open>The chain rule\<close>

lemma surface_of_cases:
  assumes "surface_of v = Some func"
  shows "func = paraboloid \<or> func = saddle \<or> func = waves \<or> func = hill"
  using assms
  by (auto simp: surface_of_def functions_lookup_def split: if_splits option.splits entry.splits)

lemma curve_x_deriv:
  "((\<lambda>t. fst (getCurvePoint v t)) has_real_derivative dx (getCurveDerivative v)) (at t)"
  unfolding getCurvePoint_def getCurveDerivative_def Let_def fst_conv
  by (auto intro!: derivative_eq_intros)

lemma curve_y_deriv:
  "((\<lambda>t. snd (getCurvePoint v t)) has_real_derivative dy (getCurveDerivative v)) (at t)"
  unfolding getCurvePoint_def getCurveDerivative_def Let_def snd_conv
  by (auto intro!: derivative_eq_intros)

lemma curve_at_tParam: "getCurvePoint v (tParam v) = (pointX v, pointY v)"
  by (simp add: getCurvePoint_def)

lemma chain_rule_is_derivative:
  assumes "func = paraboloid \<or> func = saddle \<or> func = waves \<or> func = hill"
  shows "((\<lambda>t. fn_f func (fst (getCurvePoint v t)) (snd (getCurvePoint v t)))
           has_real_derivative
             (fn_dfdx func (pointX v) (pointY v) * dx (getCurveDerivative v) +
              fn_dfdy func (pointX v) (pointY v) * dy (getCurveDerivative v)))
         (at (tParam v))"
proof -
  let ?x = "\<lambda>t. fst (getCurvePoint v t)" and ?y = "\<lambda>t. snd (getCurvePoint v t)"
  let ?a = "dx (getCurveDerivative v)" and ?b = "dy (getCurveDerivative v)"
  note X = curve_x_deriv [of v "tParam v"] and Y = curve_y_deriv [of v "tParam v"]
  have x0: "?x (tParam v) = pointX v" and y0: "?y (tParam v) = pointY v"
    by (simp_all add: curve_at_tParam)
  have pos: "1 + pointX v * pointX v + pointY v * pointY v \<noteq> 0"
  proof -
    have "0 \<le> pointX v * pointX v" "0 \<le> pointY v * pointY v" by simp_all
    then show ?thesis by linarith
  qed
  from assms consider "func = paraboloid" | "func = saddle" | "func = waves" | "func = hill"
    by blast
  then show ?thesis
  proof cases
    case 1
    show ?thesis unfolding 1 paraboloid_def surface.simps
      by (rule derivative_eq_intros X Y refl | simp add: x0 y0 algebra_simps)+
  next
    case 2
    show ?thesis unfolding 2 saddle_def surface.simps
      by (rule derivative_eq_intros X Y refl | simp add: x0 y0 algebra_simps)+
  next
    case 3
    show ?thesis unfolding 3 waves_def surface.simps
      by (rule derivative_eq_intros X Y refl | simp add: x0 y0 algebra_simps)+
  next
    case 4
    let ?D = "1 + pointX v * pointX v + pointY v * pointY v"
    have G: "((\<lambda>t. 1 + ?x t * ?x t + ?y t * ?y t) has_real_derivative
               (pointX v * ?a + ?a * pointX v + (pointY v * ?b + ?b * pointY v))) (at (tParam v))"
      by (rule derivative_eq_intros X Y refl | simp add: x0 y0)+
    have C: "((\<lambda>t. 3 :: real) has_real_derivative 0) (at (tParam v))" by simp
    have g0: "1 + ?x (tParam v) * ?x (tParam v) + ?y (tParam v) * ?y (tParam v) \<noteq> 0"
      using pos by (simp add: x0 y0)
    have Q: "((\<lambda>t. 3 / (1 + ?x t * ?x t + ?y t * ?y t)) has_real_derivative
               (0 * ?D - 3 * (pointX v * ?a + ?a * pointX v + (pointY v * ?b + ?b * pointY v))) /
               (?D * ?D)) (at (tParam v))"
      using DERIV_divide [OF C G g0] by (simp add: x0 y0)
    have E: "(0 * ?D - 3 * (pointX v * ?a + ?a * pointX v + (pointY v * ?b + ?b * pointY v))) /
               (?D * ?D) =
             - 6 * pointX v / ?D ^ 2 * ?a + - 6 * pointY v / ?D ^ 2 * ?b"
      by (simp add: power2_eq_square add_divide_distrib diff_divide_distrib algebra_simps)
    show ?thesis unfolding 4 hill_def surface.simps
      using Q unfolding E .
  qed
qed

subsection \<open>The largest light intensity\<close>

lemma normal_tilted: "normal tilted_triangle = (2, 2, 4)"
  by (simp add: normal_def tilted_triangle_def)

lemma lightDot_tilted: "lightDot tilted_triangle = Some (0.5 + 0.5 * sqrt 6)"
proof -
  have "sqrt 24 = sqrt (4 * 6)" by simp
  also have "\<dots> = 2 * sqrt 6" by (simp only: real_sqrt_mult) simp
  finally have s: "sqrt 24 = 2 * sqrt 6" .
  have "sqrt 6 * sqrt 6 = (6::real)" by simp
  then have q: "12 / (2 * sqrt 6) = sqrt 6" by (simp add: field_simps)
  have "(0.2::real) \<le> sqrt 6 * 0.5 + 0.5"
    using real_sqrt_ge_zero [of 6] by linarith
  then have m: "max 0.2 (sqrt 6 * 0.5 + 0.5) = sqrt 6 * 0.5 + 0.5" by (simp only: max_def if_True)
  have "lightDot tilted_triangle = Some (max 0.2 (12 / sqrt 24 * 0.5 + 0.5))"
    by (simp add: lightDot_def normal_tilted js_div_def)
  also have "\<dots> = Some (sqrt 6 * 0.5 + 0.5)" unfolding s q m ..
  finally show ?thesis by (simp add: mult.commute add.commute)
qed

section \<open>Verified properties\<close>

text \<open>
  C1: for every point and camera state whose depth is not zero, \<open>project3D\<close> returns the
  point the specification describes (yaw rotation of \<open>(x, z)\<close>, pitch rotation of
  \<open>(y, z)\<close>, camera distance added to \<open>z\<close>, scale \<open>600 / depth\<close>, screen coordinates
  about the viewport centre with the vertical flipped, depth the offset \<open>z\<close>); the depth
  itself is the specified one for every input; and with yaw 0, pitch 0 and distance 8 the
  origin projects to the viewport centre with depth 8.
\<close>

theorem project3D_spec:
  "depth (project3D v x y z) = spec_depth v x y z \<and>
   (spec_depth v x y z \<noteq> 0 \<longrightarrow>
      project3D v x y z =
        \<lparr> screenX = Some (fst (spec_project v x y z)),
          screenY = Some (fst (snd (spec_project v x y z))),
          depth = snd (snd (spec_project v x y z)) \<rparr>) \<and>
   project3D (v\<lparr>cameraAngleY := 0, cameraAngleX := 0, cameraDistance := 8\<rparr>) 0 0 0 =
     \<lparr> screenX = Some (canvasWidth v / 2), screenY = Some (canvasHeight v / 2), depth = 8 \<rparr>"
  by (simp add: project3D_def spec_project_def spec_depth_def rotate2D_def js_div_def Let_def)

theorem project3D_spec_witness:
  "spec_depth (constructor 900 700) 0 0 0 \<noteq> 0 \<and>
   project3D (constructor 900 700) 0 0 0 =
     \<lparr> screenX = Some 450, screenY = Some 350, depth = 8 \<rparr>"
proof -
  have d: "spec_depth (constructor 900 700) 0 0 0 = 8"
    by (simp add: spec_depth_def rotate2D_def constructor_def)
  have "project3D (constructor 900 700) 0 0 0 =
        \<lparr> screenX = Some (fst (spec_project (constructor 900 700) 0 0 0)),
          screenY = Some (fst (snd (spec_project (constructor 900 700) 0 0 0))),
          depth = snd (snd (spec_project (constructor 900 700) 0 0 0)) \<rparr>"
    using project3D_spec [of "constructor 900 700" 0 0 0] d by simp
  then show ?thesis
    using d by (simp add: spec_project_def rotate2D_def constructor_def Let_def)
qed



text \<open>
  C3: starting from the state the constructor leaves, after every prefix of every sequence
  of mouse and wheel events, whatever their coordinates and deltas, the pitch
  \<open>cameraAngleX\<close> lies in \<open>[-\<pi>/2, \<pi>/2]\<close> and \<open>cameraDistance\<close> lies in \<open>[3, 15]\<close>.
\<close>

theorem clamp_invariant:
  "camera_ok (after_events (constructor w h) (take n es))"
  by (rule after_events_camera_ok [OF constructor_camera_ok])

text \<open>
  C4, as the code has it: for a triangle whose normal is not zero the light intensity is a
  number, never less than \<open>0.2\<close> and never more than \<open>0.5 + 0.5 \<surd>6\<close> (not \<open>1.0\<close>: the
  light direction \<open>(1, 1, 2)\<close> is not normalised, and nothing caps the value); for a
  triangle whose normal is zero the intensity is not a number. The upper bound is attained
  by a triangle whose normal points along the light direction.
\<close>

theorem lightDot_bounds:
  "(normal tri = (0, 0, 0) \<longrightarrow> lightDot tri = None) \<and>
   (normal tri \<noteq> (0, 0, 0) \<longrightarrow>
      (\<exists>l. lightDot tri = Some l \<and> 0.2 \<le> l \<and> l \<le> 0.5 + 0.5 * sqrt 6)) \<and>
   lightDot tilted_triangle = Some (0.5 + 0.5 * sqrt 6)"
  using lightDot_degenerate [of tri] lightDot_regular [of tri] lightDot_tilted by blast

theorem lightDot_bounds_witness:
  "normal horizontal_triangle \<noteq> (0, 0, 0) \<and>
   (\<exists>l. lightDot horizontal_triangle = Some l \<and> 0.2 \<le> l \<and> l \<le> 0.5 + 0.5 * sqrt 6) \<and>
   normal point_triangle = (0, 0, 0) \<and> lightDot point_triangle = None"
  using lightDot_bounds [of horizontal_triangle] lightDot_bounds [of point_triangle]
  by (simp add: normal_horizontal normal_point)

text \<open>
  The claim as stated fails: a horizontal triangle has intensity \<open>1.5\<close>, above \<open>1.0\<close>, and
  a triangle collapsed to a point has no intensity at all.
\<close>

theorem lightDot_counterexample:
  "lightDot horizontal_triangle = Some (3 / 2) \<and> (1 :: real) < 3 / 2 \<and>
   lightDot point_triangle = None"
  by (simp add: lightDot_horizontal lightDot_point)

text \<open>
  C5, as the code has it: when the scalar field is the constant \<open>f(x, y) = 0\<close>, every
  triangle of the mesh has the normal \<open>(0, 0, 16/625)\<close>, which points in the \<open>+z\<close>
  direction, and every triangle's light intensity is exactly \<open>1.5\<close> (not \<open>1.0\<close>).
\<close>

theorem flat_plane_shading:
  "fn_f func = (\<lambda>x y. 0) \<Longrightarrow>
   \<forall>t\<in>set (meshTriangles func). normal t = (0, 0, 16 / 625) \<and> lightDot t = Some (3 / 2)"
  using flat_mesh_shading [of func] by blast

theorem flat_plane_shading_witness:
  "fn_f flat_plane = (\<lambda>x y. 0) \<and>
   meshTriangles flat_plane ! 0 \<in> set (meshTriangles flat_plane) \<and>
   normal (meshTriangles flat_plane ! 0) = (0, 0, 16 / 625) \<and>
   lightDot (meshTriangles flat_plane ! 0) = Some (3 / 2)"
proof -
  have f: "fn_f flat_plane = (\<lambda>x y. 0)" by (simp add: flat_plane_def)
  have m: "meshTriangles flat_plane ! 0 \<in> set (meshTriangles flat_plane)"
    by (rule mesh_first_mem)
  show ?thesis using flat_plane_shading [OF f] f m by blast
qed

text \<open>
  The claim as stated fails: on the flat plane the first triangle of the mesh has intensity
  \<open>1.5\<close>, not \<open>1.0\<close>.
\<close>

theorem flat_plane_counterexample:
  "meshTriangles flat_plane ! 0 \<in> set (meshTriangles flat_plane) \<and>
   lightDot (meshTriangles flat_plane ! 0) = Some (3 / 2) \<and> (3 / 2 :: real) \<noteq> 1"
proof -
  have f: "fn_f flat_plane = (\<lambda>x y. 0)" by (simp add: flat_plane_def)
  show ?thesis using flat_mesh_shading [OF f mesh_first_mem] mesh_first_mem [of flat_plane]
    by simp
qed

text \<open>
  C6, as the code has it: every mutation updates only the corresponding fields (the mouse
  move, while dragging, the two camera angles with the pitch clamped and the last mouse
  position; the wheel the clamped camera distance; \<^verbatim>\<open>setFunction\<close> with a key of the table,
  \<^verbatim>\<open>setPoint\<close>, \<^verbatim>\<open>setDirection\<close> and the four toggles their own fields) and then renders
  the scene of the new state itself; a rendering always starts by clearing the canvas. A
  mouse move while not dragging changes and draws nothing.
\<close>

theorem mutators_rerender:
  "onMouseMove v clientX clientY =
     (if isDragging v then
        (v\<lparr>cameraAngleY := cameraAngleY v + (clientX - lastMouseX v) * 0.01,
           cameraAngleX := max (- pi / 2) (min (pi / 2) (cameraAngleX v + (clientY - lastMouseY v) * 0.01)),
           lastMouseX := clientX, lastMouseY := clientY\<rparr>,
         render (v\<lparr>cameraAngleY := cameraAngleY v + (clientX - lastMouseX v) * 0.01,
           cameraAngleX := max (- pi / 2) (min (pi / 2) (cameraAngleX v + (clientY - lastMouseY v) * 0.01)),
           lastMouseX := clientX, lastMouseY := clientY\<rparr>))
      else (v, ([], None))) \<and>
   onWheel v deltaY =
     (v\<lparr>cameraDistance := max 3 (min 15 (cameraDistance v + deltaY * 0.01))\<rparr>,
      render (v\<lparr>cameraDistance := max 3 (min 15 (cameraDistance v + deltaY * 0.01))\<rparr>)) \<and>
   (key \<in> set known_keys \<longrightarrow>
      setFunction v key = (v\<lparr>currentFunction := key\<rparr>, render (v\<lparr>currentFunction := key\<rparr>))) \<and>
   setPoint v x y = (v\<lparr>pointX := x, pointY := y\<rparr>, render (v\<lparr>pointX := x, pointY := y\<rparr>)) \<and>
   setDirection v angle (Some mag) =
     (v\<lparr>directionAngle := angle, magnitude := mag\<rparr>,
      render (v\<lparr>directionAngle := angle, magnitude := mag\<rparr>)) \<and>
   setDirection v angle None =
     (v\<lparr>directionAngle := angle, magnitude := 1\<rparr>,
      render (v\<lparr>directionAngle := angle, magnitude := 1\<rparr>)) \<and>
   toggleGrid v = (v\<lparr>showGrid := \<not> showGrid v\<rparr>, render (v\<lparr>showGrid := \<not> showGrid v\<rparr>)) \<and>
   toggleCurve v = (v\<lparr>showCurve := \<not> showCurve v\<rparr>, render (v\<lparr>showCurve := \<not> showCurve v\<rparr>)) \<and>
   toggleTangentPlane v =
     (v\<lparr>showTangentPlane := \<not> showTangentPlane v\<rparr>,
      render (v\<lparr>showTangentPlane := \<not> showTangentPlane v\<rparr>)) \<and>
   toggleVectors v =
     (v\<lparr>showVectors := \<not> showVectors v\<rparr>, render (v\<lparr>showVectors := \<not> showVectors v\<rparr>)) \<and>
   (\<exists>rest. fst (render s) = ClearRect 0 0 (canvasWidth s) (canvasHeight s) # rest)"
proof -
  have a: "onMouseMove v clientX clientY =
     (if isDragging v then
        (v\<lparr>cameraAngleY := cameraAngleY v + (clientX - lastMouseX v) * 0.01,
           cameraAngleX := max (- pi / 2) (min (pi / 2) (cameraAngleX v + (clientY - lastMouseY v) * 0.01)),
           lastMouseX := clientX, lastMouseY := clientY\<rparr>,
         render (v\<lparr>cameraAngleY := cameraAngleY v + (clientX - lastMouseX v) * 0.01,
           cameraAngleX := max (- pi / 2) (min (pi / 2) (cameraAngleX v + (clientY - lastMouseY v) * 0.01)),
           lastMouseX := clientX, lastMouseY := clientY\<rparr>))
      else (v, ([], None)))"
    by (simp add: onMouseMove_def Let_def)
  have b: "onWheel v deltaY =
     (v\<lparr>cameraDistance := max 3 (min 15 (cameraDistance v + deltaY * 0.01))\<rparr>,
      render (v\<lparr>cameraDistance := max 3 (min 15 (cameraDistance v + deltaY * 0.01))\<rparr>))"
    by (simp add: onWheel_def Let_def)
  have c: "key \<in> set known_keys \<longrightarrow>
      setFunction v key = (v\<lparr>currentFunction := key\<rparr>, render (v\<lparr>currentFunction := key\<rparr>))"
    using setFunction_known [of key v] by blast
  have d: "setPoint v x y = (v\<lparr>pointX := x, pointY := y\<rparr>, render (v\<lparr>pointX := x, pointY := y\<rparr>))"
    by (simp add: setPoint_def Let_def)
  have e: "setDirection v angle (Some mag) =
     (v\<lparr>directionAngle := angle, magnitude := mag\<rparr>,
      render (v\<lparr>directionAngle := angle, magnitude := mag\<rparr>))"
    "setDirection v angle None =
     (v\<lparr>directionAngle := angle, magnitude := 1\<rparr>,
      render (v\<lparr>directionAngle := angle, magnitude := 1\<rparr>))"
    by (simp_all add: setDirection_def Let_def)
  have f: "toggleGrid v = (v\<lparr>showGrid := \<not> showGrid v\<rparr>, render (v\<lparr>showGrid := \<not> showGrid v\<rparr>))"
    "toggleCurve v = (v\<lparr>showCurve := \<not> showCurve v\<rparr>, render (v\<lparr>showCurve := \<not> showCurve v\<rparr>))"
    "toggleTangentPlane v =
     (v\<lparr>showTangentPlane := \<not> showTangentPlane v\<rparr>,
      render (v\<lparr>showTangentPlane := \<not> showTangentPlane v\<rparr>))"
    "toggleVectors v =
     (v\<lparr>showVectors := \<not> showVectors v\<rparr>, render (v\<lparr>showVectors := \<not> showVectors v\<rparr>))"
    by (simp_all add: toggleGrid_def toggleCurve_def toggleTangentPlane_def toggleVectors_def Let_def)
  from a b c d e f render_starts [of s] show ?thesis by (simp only: simp_thms)
qed

theorem mutators_rerender_witness:
  "''saddle'' \<in> set known_keys \<and>
   setFunction (constructor 900 700) ''saddle'' =
     ((constructor 900 700)\<lparr>currentFunction := ''saddle''\<rparr>,
      render ((constructor 900 700)\<lparr>currentFunction := ''saddle''\<rparr>)) \<and>
   (\<exists>rest. fst (snd (setFunction (constructor 900 700) ''saddle'')) = ClearRect 0 0 900 700 # rest)"
proof -
  let ?v = "(constructor 900 700)\<lparr>currentFunction := ''saddle''\<rparr>"
  have k: "''saddle'' \<in> set known_keys" by (simp add: known_keys_def)
  have s: "setFunction (constructor 900 700) ''saddle'' = (?v, render ?v)"
    using mutators_rerender [of "constructor 900 700" _ _ _ "''saddle''"] k by blast
  have "\<exists>rest. fst (render ?v) = ClearRect 0 0 (canvasWidth ?v) (canvasHeight ?v) # rest"
    using mutators_rerender [of _ _ _ _ _ _ _ _ _ ?v] by blast
  then have "\<exists>rest. fst (render ?v) = ClearRect 0 0 900 700 # rest"
    by (simp add: constructor_def)
  with k s show ?thesis by simp
qed

text \<open>
  The claim as stated fails: \<^verbatim>\<open>setPoint(1, 1)\<close> on a fresh instance issues drawing commands.
\<close>

theorem mutators_counterexample:
  "fst (snd (setPoint (constructor 900 700) 1 1)) \<noteq> []"
  by (simp add: setPoint_def Let_def render_nonempty)

text \<open>
  C7: whenever the two projected endpoints of an arrow are finite and distinct,
  \<^verbatim>\<open>drawArrow3D\<close> draws the shaft and then two strokes from the projected end point; each
  stroke has length 10, and each, taken towards the tip, makes the angle \<open>\<pi>/6\<close> with the
  shaft direction, whose angle is the \<open>atan2\<close> of the projected delta. The arrow from
  \<open>(0, 0, 0)\<close> to \<open>(1, 0, 0)\<close> in the constructor's camera state has such endpoints.
\<close>

theorem arrowhead_geometry:
  "(screenX (project3D v x1 y1 z1) = Some ax \<and> screenY (project3D v x1 y1 z1) = Some ay \<and>
    screenX (project3D v x2 y2 z2) = Some bx \<and> screenY (project3D v x2 y2 z2) = Some by \<and>
    (ax, ay) \<noteq> (bx, by) \<longrightarrow>
    (\<exists>t1x t1y t2x t2y.
       drawArrow3D v x1 y1 z1 x2 y2 z2 color width =
         [StrokeStyle (Css color), LineWidth width, BeginPath,
          MoveTo (Some ax) (Some ay), LineTo (Some bx) (Some by), Stroke,
          BeginPath, MoveTo (Some bx) (Some by), LineTo (Some t1x) (Some t1y),
          MoveTo (Some bx) (Some by), LineTo (Some t2x) (Some t2y), Stroke] \<and>
       vec_len (t1x - bx, t1y - by) = 10 \<and>
       vec_len (t2x - bx, t2y - by) = 10 \<and>
       angle_between (bx - t1x, by - t1y) (bx - ax, by - ay) = pi / 6 \<and>
       angle_between (bx - t2x, by - t2y) (bx - ax, by - ay) = pi / 6)) \<and>
   (\<exists>cx cy.
      screenX (project3D (constructor w h) 0 0 0) = Some (w / 2) \<and>
      screenY (project3D (constructor w h) 0 0 0) = Some (h / 2) \<and>
      screenX (project3D (constructor w h) 1 0 0) = Some cx \<and>
      screenY (project3D (constructor w h) 1 0 0) = Some cy \<and>
      (w / 2, h / 2) \<noteq> (cx, cy))"
proof (intro conjI impI)
  assume h: "screenX (project3D v x1 y1 z1) = Some ax \<and> screenY (project3D v x1 y1 z1) = Some ay \<and>
    screenX (project3D v x2 y2 z2) = Some bx \<and> screenY (project3D v x2 y2 z2) = Some by \<and>
    (ax, ay) \<noteq> (bx, by)"
  then obtain t1x t1y t2x t2y where
    g: "arrowHead (project3D v x1 y1 z1) (project3D v x2 y2 z2) =
             [BeginPath, MoveTo (Some bx) (Some by), LineTo (Some t1x) (Some t1y),
              MoveTo (Some bx) (Some by), LineTo (Some t2x) (Some t2y), Stroke] \<and>
           vec_len (t1x - bx, t1y - by) = 10 \<and>
           vec_len (t2x - bx, t2y - by) = 10 \<and>
           angle_between (bx - t1x, by - t1y) (bx - ax, by - ay) = pi / 6 \<and>
           angle_between (bx - t2x, by - t2y) (bx - ax, by - ay) = pi / 6"
    using arrowHead_geometry [of "project3D v x1 y1 z1" ax ay "project3D v x2 y2 z2" bx "by"]
    by blast
  have "drawArrow3D v x1 y1 z1 x2 y2 z2 color width =
         [StrokeStyle (Css color), LineWidth width, BeginPath,
          MoveTo (Some ax) (Some ay), LineTo (Some bx) (Some by), Stroke,
          BeginPath, MoveTo (Some bx) (Some by), LineTo (Some t1x) (Some t1y),
          MoveTo (Some bx) (Some by), LineTo (Some t2x) (Some t2y), Stroke]"
    using h g by (simp add: drawArrow3D_def Let_def)
  with g show "\<exists>t1x t1y t2x t2y.
       drawArrow3D v x1 y1 z1 x2 y2 z2 color width =
         [StrokeStyle (Css color), LineWidth width, BeginPath,
          MoveTo (Some ax) (Some ay), LineTo (Some bx) (Some by), Stroke,
          BeginPath, MoveTo (Some bx) (Some by), LineTo (Some t1x) (Some t1y),
          MoveTo (Some bx) (Some by), LineTo (Some t2x) (Some t2y), Stroke] \<and>
       vec_len (t1x - bx, t1y - by) = 10 \<and>
       vec_len (t2x - bx, t2y - by) = 10 \<and>
       angle_between (bx - t1x, by - t1y) (bx - ax, by - ay) = pi / 6 \<and>
       angle_between (bx - t2x, by - t2y) (bx - ax, by - ay) = pi / 6"
    by blast
next
  show "\<exists>cx cy.
      screenX (project3D (constructor w h) 0 0 0) = Some (w / 2) \<and>
      screenY (project3D (constructor w h) 0 0 0) = Some (h / 2) \<and>
      screenX (project3D (constructor w h) 1 0 0) = Some cx \<and>
      screenY (project3D (constructor w h) 1 0 0) = Some cy \<and>
      (w / 2, h / 2) \<noteq> (cx, cy)"
    by (rule default_arrow_endpoints)
qed

theorem arrowhead_geometry_witness:
  "\<exists>bx by t1x t1y t2x t2y.
     screenX (project3D (constructor 900 700) 0 0 0) = Some 450 \<and>
     screenY (project3D (constructor 900 700) 0 0 0) = Some 350 \<and>
     screenX (project3D (constructor 900 700) 1 0 0) = Some bx \<and>
     screenY (project3D (constructor 900 700) 1 0 0) = Some by \<and>
     (450, 350) \<noteq> (bx, by) \<and>
     drawArrow3D (constructor 900 700) 0 0 0 1 0 0 ''#e94560'' 2 =
       [StrokeStyle (Css ''#e94560''), LineWidth 2, BeginPath,
        MoveTo (Some 450) (Some 350), LineTo (Some bx) (Some by), Stroke,
        BeginPath, MoveTo (Some bx) (Some by), LineTo (Some t1x) (Some t1y),
        MoveTo (Some bx) (Some by), LineTo (Some t2x) (Some t2y), Stroke] \<and>
     vec_len (t1x - bx, t1y - by) = 10 \<and>
     vec_len (t2x - bx, t2y - by) = 10 \<and>
     angle_between (bx - t1x, by - t1y) (bx - 450, by - 350) = pi / 6 \<and>
     angle_between (bx - t2x, by - t2y) (bx - 450, by - 350) = pi / 6"
proof -
  let ?v = "constructor 900 700"
  obtain bx "by" where
    e: "screenX (project3D ?v 0 0 0) = Some 450" "screenY (project3D ?v 0 0 0) = Some 350"
       "screenX (project3D ?v 1 0 0) = Some bx" "screenY (project3D ?v 1 0 0) = Some by"
       "(450, 350) \<noteq> (bx, by)"
    using default_arrow_endpoints [of 900 700] by auto
  then show ?thesis
    using arrowhead_geometry [of ?v 0 0 0 450 350 1 0 0 bx "by" "''#e94560''" 2] by blast
qed

text \<open>
  C8: the claim fails on a key that the table inherits. On a fresh instance bound to a
  900 by 700 canvas, \<^verbatim>\<open>setFunction('toString')\<close> finds the inherited member, stores the key
  in \<open>currentFunction\<close> and renders: the canvas is cleared, the grid and the axes are drawn,
  and the surface renderer throws a TypeError.
\<close>

theorem setFunction_inherited_key:
  "''toString'' \<notin> set known_keys \<and>
   setFunction (constructor 900 700) ''toString'' =
     ((constructor 900 700)\<lparr>currentFunction := ''toString''\<rparr>,
      ([ClearRect 0 0 900 700] @
       drawGrid ((constructor 900 700)\<lparr>currentFunction := ''toString''\<rparr>) @
       drawAxes ((constructor 900 700)\<lparr>currentFunction := ''toString''\<rparr>),
       Some TypeError))"
proof -
  let ?v = "(constructor 900 700)\<lparr>currentFunction := ''toString''\<rparr>"
  have "surface_of ?v = None"
    by (rule surface_of_inherited) (simp add: lookup_toString)
  then have "render ?v = ([ClearRect 0 0 (canvasWidth ?v) (canvasHeight ?v)] @ drawGrid ?v @ drawAxes ?v,
               Some TypeError)"
    by (rule render_without_surface)
  moreover have "canvasWidth ?v = 900" "canvasHeight ?v = 700" by (simp_all add: constructor_def)
  ultimately show ?thesis by (simp add: setFunction_def lookup_toString Let_def known_keys_def)
qed

text \<open>
  C9: in every state whose current function is an entry of the table, with derivatives
  \<open>dfdx\<close> and \<open>dfdy\<close>, \<^verbatim>\<open>getChainRuleValues\<close> leaves the state as it is and returns
  \<open>dxdt = m cos \<theta>\<close>, \<open>dydt = m sin \<theta>\<close> and
  \<open>dzdt = dfdx(pointX, pointY) dxdt + dfdy(pointX, pointY) dydt\<close>, together with the point,
  its height and the two partial derivatives there; and that \<open>dzdt\<close> is the derivative of
  the height \<open>f(x(t), y(t))\<close> along the parametric curve at the current parameter.
\<close>

theorem getChainRuleValues_spec:
  "surface_of v = Some func \<Longrightarrow>
   getChainRuleValues v =
     (v, Inr \<lparr> cv_pointX = pointX v, cv_pointY = pointY v,
               cv_z = fn_f func (pointX v) (pointY v),
               cv_dzdx = fn_dfdx func (pointX v) (pointY v),
               cv_dzdy = fn_dfdy func (pointX v) (pointY v),
               cv_dxdt = magnitude v * cos (directionAngle v),
               cv_dydt = magnitude v * sin (directionAngle v),
               cv_dzdt = fn_dfdx func (pointX v) (pointY v) * (magnitude v * cos (directionAngle v)) +
                         fn_dfdy func (pointX v) (pointY v) * (magnitude v * sin (directionAngle v)) \<rparr>) \<and>
   ((\<lambda>t. fn_f func (fst (getCurvePoint v t)) (snd (getCurvePoint v t)))
      has_real_derivative
        (fn_dfdx func (pointX v) (pointY v) * (magnitude v * cos (directionAngle v)) +
         fn_dfdy func (pointX v) (pointY v) * (magnitude v * sin (directionAngle v))))
     (at (tParam v))"
proof
  assume s: "surface_of v = Some func"
  then show "getChainRuleValues v =
     (v, Inr \<lparr> cv_pointX = pointX v, cv_pointY = pointY v,
               cv_z = fn_f func (pointX v) (pointY v),
               cv_dzdx = fn_dfdx func (pointX v) (pointY v),
               cv_dzdy = fn_dfdy func (pointX v) (pointY v),
               cv_dxdt = magnitude v * cos (directionAngle v),
               cv_dydt = magnitude v * sin (directionAngle v),
               cv_dzdt = fn_dfdx func (pointX v) (pointY v) * (magnitude v * cos (directionAngle v)) +
                         fn_dfdy func (pointX v) (pointY v) * (magnitude v * sin (directionAngle v)) \<rparr>)"
    by (simp add: getChainRuleValues_def getCurveDerivative_def Let_def)
  show "((\<lambda>t. fn_f func (fst (getCurvePoint v t)) (snd (getCurvePoint v t)))
      has_real_derivative
        (fn_dfdx func (pointX v) (pointY v) * (magnitude v * cos (directionAngle v)) +
         fn_dfdy func (pointX v) (pointY v) * (magnitude v * sin (directionAngle v))))
     (at (tParam v))"
    using chain_rule_is_derivative [OF surface_of_cases [OF s], of v]
    by (simp add: getCurveDerivative_def)
qed

theorem getChainRuleValues_spec_witness:
  "surface_of sample_state = Some paraboloid \<and>
   getChainRuleValues sample_state =
     (sample_state, Inr \<lparr> cv_pointX = 1, cv_pointY = 1, cv_z = 2, cv_dzdx = 2, cv_dzdy = 2,
                          cv_dxdt = 2, cv_dydt = 0, cv_dzdt = 4 \<rparr>)"
proof -
  have "getChainRuleValues sample_state =
     (sample_state, Inr \<lparr> cv_pointX = 1, cv_pointY = 1, cv_z = 2, cv_dzdx = 2, cv_dzdy = 2,
                          cv_dxdt = 2, cv_dydt = 0, cv_dzdt = 4 \<rparr>)"
    using getChainRuleValues_spec [OF surface_of_sample]
    by (simp add: sample_state_def constructor_def paraboloid_def)
  then show ?thesis using surface_of_sample by simp
qed

text \<open>
  C10: for every scalar field the mesh has exactly \<open>2 \<cdot> 25 \<cdot> 25 = 1250\<close> triangles; the
  square \<open>(i, j)\<close> of the 25 by 25 grid over \<open>[-2, 2] \<times> [-2, 2]\<close> contributes, at positions
  \<open>2 (25 i + j)\<close> and \<open>2 (25 i + j) + 1\<close>, the two triangles on either side of the diagonal
  from vertex \<open>(i + 1, j)\<close> to vertex \<open>(i, j + 1)\<close>; and every vertex of every triangle lies
  in the domain and has \<open>z = f(x, y)\<close>.
\<close>

theorem mesh_structure:
  "length (meshTriangles func) = 1250 \<and>
   (\<forall>i<25. \<forall>j<25.
      meshTriangles func ! (2 * (25 * i + j)) =
        \<lparr> p1 = grid_vertex func i j, p2 = grid_vertex func (Suc i) j,
          p3 = grid_vertex func i (Suc j) \<rparr> \<and>
      meshTriangles func ! (2 * (25 * i + j) + 1) =
        \<lparr> p1 = grid_vertex func (Suc i) j, p2 = grid_vertex func (Suc i) (Suc j),
          p3 = grid_vertex func i (Suc j) \<rparr>) \<and>
   (\<forall>t\<in>set (meshTriangles func).
      on_surface func (p1 t) \<and> on_surface func (p2 t) \<and> on_surface func (p3 t))"
  using length_meshTriangles [of func] mesh_cell_nth [of _ _ func]
    mesh_vertices_on_surface [of _ func]
  by blast

theorem mesh_structure_witness:
  "meshTriangles paraboloid ! 0 \<in> set (meshTriangles paraboloid) \<and>
   meshTriangles paraboloid ! 0 =
     \<lparr> p1 = \<lparr>px = - 2, py = - 2, pz = 8\<rparr>,
       p2 = \<lparr>px = - 46 / 25, py = - 2, pz = 4616 / 625\<rparr>,
       p3 = \<lparr>px = - 2, py = - 46 / 25, pz = 4616 / 625\<rparr> \<rparr> \<and>
   on_surface paraboloid (p1 (meshTriangles paraboloid ! 0))"
proof -
  have m: "meshTriangles paraboloid ! 0 \<in> set (meshTriangles paraboloid)"
    by (rule mesh_first_mem)
  have z: "(0::nat) < 25" by simp
  have "meshTriangles paraboloid ! (2 * (25 * 0 + 0)) =
        \<lparr> p1 = grid_vertex paraboloid 0 0, p2 = grid_vertex paraboloid (Suc 0) 0,
          p3 = grid_vertex paraboloid 0 (Suc 0) \<rparr>"
    using mesh_structure [of paraboloid] z by blast
  then have e: "meshTriangles paraboloid ! 0 =
     \<lparr> p1 = \<lparr>px = - 2, py = - 2, pz = 8\<rparr>,
       p2 = \<lparr>px = - 46 / 25, py = - 2, pz = 4616 / 625\<rparr>,
       p3 = \<lparr>px = - 2, py = - 46 / 25, pz = 4616 / 625\<rparr> \<rparr>"
    by (simp add: grid_vertex_def paraboloid_def)
  have "on_surface paraboloid (p1 (meshTriangles paraboloid ! 0))"
    using mesh_structure [of paraboloid] m by blast
  with m e show ?thesis by simp
qed

end
